theory Spec2Isabelle
  imports Main
begin

section \<open>Data model (src/db/schema.ts and the migration)\<close>

text \<open>
  Identifiers (Postgres \<open>uuid\<close> columns) and opaque tokens are strings.  A timestamp is
  the number of milliseconds since the epoch, the value a JavaScript \<open>Date\<close> carries.
  Every \<open>new Date()\<close> of the source is an explicit argument of the function that reads
  the clock, and so is every value the database generates for a column default
  (\<open>gen_random_uuid()\<close> for \<open>id\<close>, \<open>now()\<close> for \<open>created_at\<close> and \<open>last_accessed_at\<close>).
  A value of type \<open>uuid\<close> is a stored identifier; a string that arrives in a request is
  turned into one by the storage engine, which may refuse it.
\<close>

type_synonym uuid = string
type_synonym timestamp = int

text \<open>Values stored in JSON objects and returned in JSON bodies.\<close>

datatype jval = JNumber int | JString string | JDate timestamp

record user_row =
  u_id :: uuid
  u_provider :: string
  u_providerId :: string
  u_email :: string
  u_name :: string
  u_createdAt :: timestamp

record refresh_token_row =
  rt_id :: uuid
  rt_userId :: uuid
  rt_token :: string
  rt_expiresAt :: timestamp
  rt_isRevoked :: bool
  rt_createdAt :: timestamp

record session_row =
  s_id :: uuid
  s_userId :: uuid
  s_data :: "(string \<times> jval) list"
  s_expiresAt :: timestamp
  s_createdAt :: timestamp
  s_lastAccessedAt :: timestamp

text \<open>
  The database: one list of rows per table, in insertion order.  A \<open>select\<close> returns the
  matching rows in table order; \<open>const [x] = ...\<close> takes the first of them.
\<close>

record db =
  users :: "user_row list"
  refreshTokens :: "refresh_token_row list"
  sessions :: "session_row list"

datatype db_error =
    PrimaryKeyViolation string
  | ForeignKeyViolation string
  | InvalidUuid string
  | InvalidByteSequence

text \<open>
  What the storage engine does with the parameters of a query, before it looks at any
  row: \<open>uuid_in\<close> reads a string compared with a \<open>uuid\<close> column and gives the identifier
  it denotes, or \<open>None\<close> when the string is not a uuid (the query then throws, SQLSTATE
  22P02); \<open>text_in\<close> tells whether a string compared with a \<open>text\<close> column is text the
  engine accepts (when it is not, as for a string holding a NUL character, the query
  throws, SQLSTATE 22021).
\<close>

record engine =
  uuid_in :: "string \<Rightarrow> uuid option"
  text_in :: "string \<Rightarrow> bool"

text \<open>Exceptions thrown inside the services and the callback handler.\<close>

datatype error =
    Error string
  | DiscordApiError nat
  | ProviderError
  | DbError db_error

text \<open>
  The time zone of the process, as the language standard has it: \<open>LocalTZA t True\<close> is
  the offset of local time from UTC, in milliseconds, at the instant \<open>t\<close>;
  \<open>LocalTZA t False\<close> is the offset that belongs to the local wall-clock value \<open>t\<close>.
\<close>

record time_zone =
  LocalTZA :: "timestamp \<Rightarrow> bool \<Rightarrow> int"

text \<open>
  \<open>d.setSeconds(d.getSeconds() + n)\<close> on a \<open>Date\<close> holding the instant \<open>t\<close>.  Both
  methods work on the fields of local time: the instant is taken to local time, the
  seconds field is set to its value plus \<open>n\<close>, which overflows into the larger fields and
  so moves the wall-clock value by \<open>n\<close> seconds, and the wall-clock value is taken back to
  an instant.
\<close>

definition addSeconds :: "time_zone \<Rightarrow> timestamp \<Rightarrow> int \<Rightarrow> timestamp" where
  "addSeconds z t n =
     (let local = t + LocalTZA z t True;
          date = local + n * 1000
      in date - LocalTZA z date False)"

subsection \<open>Inserts under the constraints of the migration\<close>

text \<open>
  The migration declares \<open>id\<close> as primary key of each table and a foreign key from
  \<open>refresh_tokens.user_id\<close> and \<open>sessions.user_id\<close> to \<open>users.id\<close>; it declares no other
  constraint.  An insert that violates one of them throws and changes nothing.
\<close>

definition insert_user :: "db \<Rightarrow> user_row \<Rightarrow> db_error + db" where
  "insert_user d r =
     (if u_id r \<in> set (map u_id (users d)) then Inl (PrimaryKeyViolation ''users_pkey'')
      else Inr (d\<lparr>users := users d @ [r]\<rparr>))"

definition insert_refresh_token :: "db \<Rightarrow> refresh_token_row \<Rightarrow> db_error + db" where
  "insert_refresh_token d r =
     (if rt_id r \<in> set (map rt_id (refreshTokens d))
        then Inl (PrimaryKeyViolation ''refresh_tokens_pkey'')
      else if rt_userId r \<notin> set (map u_id (users d))
        then Inl (ForeignKeyViolation ''refresh_tokens_user_id_users_id_fk'')
      else Inr (d\<lparr>refreshTokens := refreshTokens d @ [r]\<rparr>))"

definition insert_session :: "db \<Rightarrow> session_row \<Rightarrow> db_error + db" where
  "insert_session d r =
     (if s_id r \<in> set (map s_id (sessions d)) then Inl (PrimaryKeyViolation ''sessions_pkey'')
      else if s_userId r \<notin> set (map u_id (users d))
        then Inl (ForeignKeyViolation ''sessions_user_id_users_id_fk'')
      else Inr (d\<lparr>sessions := sessions d @ [r]\<rparr>))"

section \<open>TokenService (token-service.ts)\<close>

definition REFRESH_TOKEN_EXPIRES_IN :: int where
  "REFRESH_TOKEN_EXPIRES_IN = 30 * 24 * 60 * 60"

definition ACCESS_TOKEN_EXPIRES_IN :: string where
  "ACCESS_TOKEN_EXPIRES_IN = ''1h''"

text \<open>
  A signed access token is represented by what \<open>jwt.sign\<close> is given: the payload
  \<open>{userId, provider}\<close> and the \<open>expiresIn\<close> option.  The signing secret is left out.
\<close>

record jwt =
  jwt_userId :: uuid
  jwt_provider :: string
  jwt_expiresIn :: string

definition jwt_sign :: "uuid \<Rightarrow> string \<Rightarrow> string \<Rightarrow> jwt" where
  "jwt_sign userId prov expIn =
     \<lparr>jwt_userId = userId, jwt_provider = prov, jwt_expiresIn = expIn\<rparr>"

text \<open>The object \<open>refreshAccessToken\<close> returns, and the one \<open>generateTokens\<close> returns.\<close>

record refresh_result =
  accessToken :: jwt
  expiresIn :: jval

record token_pair = refresh_result +
  refreshToken :: string

text \<open>
  \<open>generateTokens(userId, provider)\<close>.  \<open>z\<close> is the time zone of the process, \<open>uuid\<close> the
  result of \<open>randomUUID()\<close>, \<open>now\<close> the clock read by \<open>new Date()\<close>; \<open>rowId\<close> and \<open>dbNow\<close>
  are the column defaults the database generates for the inserted row.
\<close>

definition generateTokens ::
  "time_zone \<Rightarrow> db \<Rightarrow> uuid \<Rightarrow> string \<Rightarrow> string \<Rightarrow> timestamp \<Rightarrow> uuid \<Rightarrow> timestamp
     \<Rightarrow> error + (token_pair \<times> db)"
where
  "generateTokens z d userId prov uuid now rowId dbNow =
     (let accessTok = jwt_sign userId prov ACCESS_TOKEN_EXPIRES_IN;
          refreshTok = uuid;
          expiresAt = addSeconds z now REFRESH_TOKEN_EXPIRES_IN;
          newRefreshToken = \<lparr>rt_id = rowId, rt_userId = userId, rt_token = refreshTok,
                             rt_expiresAt = expiresAt, rt_isRevoked = False,
                             rt_createdAt = dbNow\<rparr>
      in case insert_refresh_token d newRefreshToken of
           Inl e \<Rightarrow> Inl (DbError e)
         | Inr d' \<Rightarrow>
             Inr (\<lparr>accessToken = accessTok,
                   expiresIn = JNumber REFRESH_TOKEN_EXPIRES_IN,
                   refreshToken = refreshTok\<rparr>, d'))"

text \<open>
  \<open>refreshAccessToken(refreshToken)\<close>.  The query selects the rows with the given token
  value, \<open>isRevoked = false\<close> and \<open>lt(expiresAt, new Date())\<close>, that is
  \<open>expires_at < now\<close>.  The store is only read.
\<close>

definition refreshAccessToken :: "db \<Rightarrow> string \<Rightarrow> timestamp \<Rightarrow> error + refresh_result" where
  "refreshAccessToken d refreshTok now =
     (case filter (\<lambda>r. rt_token r = refreshTok \<and> rt_isRevoked r = False \<and> rt_expiresAt r < now)
             (refreshTokens d) of
        [] \<Rightarrow> Inl (Error ''Invalid refresh token'')
      | token # _ \<Rightarrow>
          (case filter (\<lambda>u. u_id u = rt_userId token) (users d) of
             [] \<Rightarrow> Inl (Error ''User not found'')
           | user # _ \<Rightarrow>
               Inr \<lparr>accessToken = jwt_sign (u_id user) (u_provider user) ACCESS_TOKEN_EXPIRES_IN,
                    expiresIn = JString ACCESS_TOKEN_EXPIRES_IN\<rparr>))"

text \<open>
  \<open>revokeRefreshToken(refreshToken)\<close>: an update of every row with the token value.  The
  update throws, and changes nothing, when the engine refuses the string as text.
\<close>

definition revokeRefreshToken :: "engine \<Rightarrow> db \<Rightarrow> string \<Rightarrow> error + db" where
  "revokeRefreshToken e d refreshTok =
     (if \<not> text_in e refreshTok then Inl (DbError InvalidByteSequence)
      else
        Inr (d\<lparr>refreshTokens :=
                 map (\<lambda>r. if rt_token r = refreshTok then r\<lparr>rt_isRevoked := True\<rparr> else r)
                   (refreshTokens d)\<rparr>))"

text \<open>
  \<open>cleanupExpiredTokens()\<close>: deletes the rows with \<open>lt(expiresAt, new Date())\<close> or
  \<open>isRevoked = true\<close>.
\<close>

definition cleanupExpiredTokens :: "db \<Rightarrow> timestamp \<Rightarrow> db" where
  "cleanupExpiredTokens d now =
     d\<lparr>refreshTokens :=
         filter (\<lambda>r. \<not> (rt_expiresAt r < now \<or> rt_isRevoked r = True)) (refreshTokens d)\<rparr>"

section \<open>SessionService (session-service.ts)\<close>

definition SESSION_DURATION :: int where
  "SESSION_DURATION = 24 * 60 * 60"

text \<open>
  \<open>createSession(userId, data)\<close>: \<open>z\<close> is the time zone of the process, \<open>now\<close> the clock
  read by \<open>new Date()\<close>; \<open>rowId\<close> and \<open>dbNow\<close> are the defaults generated for \<open>id\<close> and for
  \<open>created_at\<close>, \<open>last_accessed_at\<close>.
\<close>

definition createSession ::
  "time_zone \<Rightarrow> db \<Rightarrow> uuid \<Rightarrow> (string \<times> jval) list \<Rightarrow> timestamp \<Rightarrow> uuid \<Rightarrow> timestamp
     \<Rightarrow> error + (session_row \<times> db)"
where
  "createSession z d userId data now rowId dbNow =
     (let expiresAt = addSeconds z now SESSION_DURATION;
          session = \<lparr>s_id = rowId, s_userId = userId, s_data = data, s_expiresAt = expiresAt,
                     s_createdAt = dbNow, s_lastAccessedAt = dbNow\<rparr>
      in case insert_session d session of
           Inl e \<Rightarrow> Inl (DbError e)
         | Inr d' \<Rightarrow> Inr (session, d'))"

text \<open>
  \<open>getSession(sessionId)\<close>.  The string \<open>sessionId\<close> is compared with the \<open>uuid\<close> column
  \<open>sessions.id\<close>: when the engine does not read it as a uuid the select throws.  The
  clock is read twice: \<open>now\<close> in the expiry test \<open>session.expiresAt < new Date()\<close>, \<open>now'\<close>
  for the new \<open>lastAccessedAt\<close>.  The value returned is the row as selected before the
  update.  \<open>None\<close> is the source's \<open>null\<close>.
\<close>

definition getSession ::
  "engine \<Rightarrow> db \<Rightarrow> string \<Rightarrow> timestamp \<Rightarrow> timestamp \<Rightarrow> error + (session_row option \<times> db)"
where
  "getSession e d sessionId now now' =
     (case uuid_in e sessionId of
        None \<Rightarrow> Inl (DbError (InvalidUuid sessionId))
      | Some sid \<Rightarrow>
          (case filter (\<lambda>s. s_id s = sid) (sessions d) of
             [] \<Rightarrow> Inr (None, d)
           | session # _ \<Rightarrow>
               if s_expiresAt session < now then Inr (None, d)
               else Inr (Some session,
                         d\<lparr>sessions :=
                             map (\<lambda>s. if s_id s = sid then s\<lparr>s_lastAccessedAt := now'\<rparr> else s)
                               (sessions d)\<rparr>)))"


text \<open>\<open>cleanupExpiredSessions()\<close>: deletes the rows with \<open>lt(expiresAt, new Date())\<close>.\<close>

definition cleanupExpiredSessions :: "db \<Rightarrow> timestamp \<Rightarrow> db" where
  "cleanupExpiredSessions d now =
     d\<lparr>sessions := filter (\<lambda>s. \<not> s_expiresAt s < now) (sessions d)\<rparr>"

section \<open>The auth router (routes.ts)\<close>

text \<open>The entry of the in-memory \<open>states\<close> map, and the map itself.\<close>

record pending =
  codeVerifier :: string
  state :: string
  provider :: string

type_synonym states = "string \<rightharpoonup> pending"

text \<open>The normalised profile \<open>userInfoJson\<close> and the Discord profile it is built from.\<close>

record userInfoJson =
  ui_email :: string
  ui_name :: string
  ui_sub :: string

record discordUser =
  du_id :: string
  du_email :: string
  du_username :: string
  du_discriminator :: string

text \<open>
  What the two user-info requests can do.  For Discord: \<open>fetch\<close> throws, or answers with
  \<open>ok\<close>, \<open>status\<close> and a body that \<open>JSON.parse\<close> accepts (\<open>Some\<close>) or rejects (\<open>None\<close>).
  For the other providers: building the request or \<open>fetchProtectedResource\<close> throws, or
  the answer has no body (\<open>None\<close>), or it has a body that \<open>JSON.parse\<close> accepts or
  rejects.
\<close>

datatype discord_reply = DiscordFetchThrows | DiscordResponse bool nat "discordUser option"

datatype userinfo_reply = ResourceThrows | ResourceResponse "userInfoJson option option"

text \<open>
  The surroundings of the router: \<open>TZ\<close> is the time zone of the process; \<open>clients\<close>
  tells whether \<open>clients[provider]\<close> is truthy; \<open>authorizationCodeGrant\<close> takes the provider whose configuration is used, the
  callback URL, \<open>pkceCodeVerifier\<close> and \<open>expectedState\<close>, and returns the provider's
  access token, or \<open>None\<close> when it throws.
\<close>

record oidc_env =
  BASE_URL :: string
  TZ :: time_zone
  clients :: "string \<Rightarrow> bool"
  calculatePKCECodeChallenge :: "string \<Rightarrow> string"
  buildAuthorizationUrl :: "string \<Rightarrow> (string \<times> string) list \<Rightarrow> string"
  authorizationCodeGrant :: "string \<Rightarrow> string \<Rightarrow> string \<Rightarrow> string \<Rightarrow> string option"
  discordUsersMe :: "string \<Rightarrow> discord_reply"
  fetchProtectedResource :: "string \<Rightarrow> string \<Rightarrow> userinfo_reply"

record login_result = token_pair +
  sessionId :: uuid

datatype body =
    ErrorBody string
  | MessageBody string
  | TokensBody refresh_result
  | LoginBody login_result

datatype response = Json nat body | Redirect string

text \<open>
  \<open>GET /login/:provider\<close>.  \<open>verifier\<close> and \<open>st\<close> are the results of
  \<open>randomPKCECodeVerifier()\<close> and \<open>randomState()\<close>.
\<close>

definition login :: "oidc_env \<Rightarrow> states \<Rightarrow> string \<Rightarrow> string \<Rightarrow> string \<Rightarrow> response \<times> states" where
  "login env sts prov verifier st =
     (if \<not> clients env prov then (Json 400 (ErrorBody ''Invalid provider''), sts)
      else
        let codeChallenge = calculatePKCECodeChallenge env verifier;
            sts' = sts(st \<mapsto> \<lparr>codeVerifier = verifier, state = st, provider = prov\<rparr>);
            parameters =
              [(''redirect_uri'', BASE_URL env @ ''/auth/callback/'' @ prov),
               (''scope'', if prov = ''discord'' then ''identify email''
                           else ''openid email profile''),
               (''code_challenge'', codeChallenge),
               (''code_challenge_method'', ''S256''),
               (''state'', st)]
        in (Redirect (buildAuthorizationUrl env prov parameters), sts'))"

text \<open>The user-info step of the callback (the \<open>if (provider === "discord")\<close> statement).\<close>

definition fetchUserInfo :: "oidc_env \<Rightarrow> string \<Rightarrow> string \<Rightarrow> error + userInfoJson" where
  "fetchUserInfo env prov access_token =
     (if prov = ''discord'' then
        (case discordUsersMe env access_token of
           DiscordFetchThrows \<Rightarrow> Inl ProviderError
         | DiscordResponse ok status parsed \<Rightarrow>
             if \<not> ok then Inl (DiscordApiError status)
             else (case parsed of
                     None \<Rightarrow> Inl ProviderError
                   | Some discordUser \<Rightarrow>
                       Inr \<lparr>ui_email = du_email discordUser,
                            ui_name = du_username discordUser,
                            ui_sub = du_id discordUser\<rparr>))
      else
        (case fetchProtectedResource env prov access_token of
           ResourceThrows \<Rightarrow> Inl ProviderError
         | ResourceResponse None \<Rightarrow> Inl (Error ''Failed to fetch user info'')
         | ResourceResponse (Some None) \<Rightarrow> Inl ProviderError
         | ResourceResponse (Some (Some info)) \<Rightarrow> Inr info))"

text \<open>
  The find-or-create step of the callback: the select is
  \<open>where(eq(users.providerId, userInfoJson.sub))\<close>; the id is that of the first row
  found, or of the row inserted when none is found.
\<close>

definition findOrCreateUser ::
  "db \<Rightarrow> string \<Rightarrow> userInfoJson \<Rightarrow> uuid \<Rightarrow> timestamp \<Rightarrow> error + (uuid \<times> db)"
where
  "findOrCreateUser d prov info rowId dbNow =
     (case filter (\<lambda>u. u_providerId u = ui_sub info) (users d) of
        [] \<Rightarrow>
          (let newUser = \<lparr>u_id = rowId, u_provider = prov, u_providerId = ui_sub info,
                          u_email = ui_email info, u_name = ui_name info,
                          u_createdAt = dbNow\<rparr>
           in case insert_user d newUser of
                Inl e \<Rightarrow> Inl (DbError e)
              | Inr d' \<Rightarrow> Inr (rowId, d'))
      | existing # _ \<Rightarrow> Inr (u_id existing, d))"

text \<open>The values one callback draws from the clock, the random source and the database.\<close>

record callback_gen =
  g_userId :: uuid
  g_userCreatedAt :: timestamp
  g_tokenNow :: timestamp
  g_randomUUID :: string
  g_tokenId :: uuid
  g_tokenCreatedAt :: timestamp
  g_lastLogin :: timestamp
  g_sessionNow :: timestamp
  g_sessionId :: uuid
  g_sessionCreatedAt :: timestamp

text \<open>
  The \<open>try\<close> block of the callback.  The result is what the block returns or throws,
  with the database as the block leaves it.
\<close>

definition callback_try ::
  "oidc_env \<Rightarrow> callback_gen \<Rightarrow> db \<Rightarrow> string \<Rightarrow> string \<Rightarrow> pending \<Rightarrow> (error + login_result) \<times> db"
where
  "callback_try env g d prov currentUrl storedState =
     (case authorizationCodeGrant env prov currentUrl (codeVerifier storedState)
             (state storedState) of
        None \<Rightarrow> (Inl ProviderError, d)
      | Some access_token \<Rightarrow>
          (case fetchUserInfo env prov access_token of
             Inl e \<Rightarrow> (Inl e, d)
           | Inr info \<Rightarrow>
               (case findOrCreateUser d prov info (g_userId g) (g_userCreatedAt g) of
                  Inl e \<Rightarrow> (Inl e, d)
                | Inr (userId, d1) \<Rightarrow>
                    (case generateTokens (TZ env) d1 userId prov (g_randomUUID g) (g_tokenNow g)
                            (g_tokenId g) (g_tokenCreatedAt g) of
                       Inl e \<Rightarrow> (Inl e, d1)
                     | Inr (tokens, d2) \<Rightarrow>
                         (case createSession (TZ env) d2 userId
                                 [(''provider'', JString prov),
                                  (''email'', JString (ui_email info)),
                                  (''name'', JString (ui_name info)),
                                  (''lastLogin'', JDate (g_lastLogin g))]
                                 (g_sessionNow g) (g_sessionId g) (g_sessionCreatedAt g) of
                            Inl e \<Rightarrow> (Inl e, d2)
                          | Inr (session, d3) \<Rightarrow>
                              (Inr \<lparr>accessToken = accessToken tokens,
                                    expiresIn = expiresIn tokens,
                                    refreshToken = refreshToken tokens,
                                    sessionId = s_id session\<rparr>, d3))))))"

text \<open>
  \<open>GET /callback/:provider\<close>.  The handler runs in two parts, and other handlers can run
  between them.  The first part runs up to the first \<open>await\<close>: the two early returns,
  which come before the \<open>try\<close> and leave the registry as it is, or else the entry found
  under the presented state, with which the handler goes on.
\<close>

definition callback_begin :: "oidc_env \<Rightarrow> states \<Rightarrow> string \<Rightarrow> string \<Rightarrow> response + pending" where
  "callback_begin env sts prov query_state =
     (if \<not> clients env prov then Inl (Json 400 (ErrorBody ''Invalid provider''))
      else
        (case sts query_state of
           None \<Rightarrow> Inl (Json 400 (ErrorBody ''Invalid state''))
         | Some storedState \<Rightarrow>
             if provider storedState \<noteq> prov then Inl (Json 400 (ErrorBody ''Invalid state''))
             else Inr storedState))"

text \<open>
  The second part: the \<open>try\<close> block with its \<open>catch\<close>, run on the store as it is by then,
  and the \<open>finally\<close> block, which deletes from the registry, as it is by then, the entry
  whose key is the \<open>state\<close> field of the entry found in the first part.
\<close>

definition callback_finish ::
  "oidc_env \<Rightarrow> callback_gen \<Rightarrow> states \<times> db \<Rightarrow> string \<Rightarrow> string \<Rightarrow> pending
     \<Rightarrow> response \<times> states \<times> db"
where
  "callback_finish env g sd prov currentUrl storedState =
     (case callback_try env g (snd sd) prov currentUrl storedState of
        (Inl err, d') \<Rightarrow>
          (Json 500 (ErrorBody ''Authentication failed''),
           (fst sd)(state storedState := None), d')
      | (Inr result, d') \<Rightarrow>
          (Json 200 (LoginBody result), (fst sd)(state storedState := None), d'))"

text \<open>A callback handled with no other handler running between its two parts.\<close>

definition callback ::
  "oidc_env \<Rightarrow> callback_gen \<Rightarrow> states \<times> db \<Rightarrow> string \<Rightarrow> string \<Rightarrow> string
     \<Rightarrow> response \<times> states \<times> db"
where
  "callback env g sd prov query_state currentUrl =
     (case callback_begin env (fst sd) prov query_state of
        Inl res \<Rightarrow> (res, fst sd, snd sd)
      | Inr storedState \<Rightarrow> callback_finish env g sd prov currentUrl storedState)"

text \<open>
  \<open>POST /refresh\<close> and \<open>POST /revoke\<close>; an absent or empty token is falsy, and the \<open>catch\<close>
  of each route answers for whatever the service throws.
\<close>

definition refresh_route :: "db \<Rightarrow> string \<Rightarrow> timestamp \<Rightarrow> response" where
  "refresh_route d refreshTok now =
     (if refreshTok = [] then Json 400 (ErrorBody ''Refresh token is required'')
      else (case refreshAccessToken d refreshTok now of
              Inl err \<Rightarrow> Json 401 (ErrorBody ''Invalid refresh token'')
            | Inr tokens \<Rightarrow> Json 200 (TokensBody tokens)))"

definition revoke_route :: "engine \<Rightarrow> db \<Rightarrow> string \<Rightarrow> response \<times> db" where
  "revoke_route e d refreshTok =
     (if refreshTok = [] then (Json 400 (ErrorBody ''Refresh token is required''), d)
      else (case revokeRefreshToken e d refreshTok of
              Inl err \<Rightarrow> (Json 500 (ErrorBody ''Failed to revoke token''), d)
            | Inr d' \<Rightarrow> (Json 200 (MessageBody ''Token revoked successfully''), d')))"

text \<open>
  The registry invariant the login handler establishes: every entry is stored under its
  own \<open>state\<close> field.
\<close>

definition states_ok :: "states \<Rightarrow> bool" where
  "states_ok sts = (\<forall>k v. sts k = Some v \<longrightarrow> state v = k)"

section \<open>The storage layout (drizzle/migrations/0000_nice_agent_brand.sql)\<close>

text \<open>
  The migration as data: each \<open>CREATE TABLE\<close> with its columns and their inline
  constraints, and the table constraints added by the \<open>ALTER TABLE\<close> statements.
\<close>

datatype sql_type = SqlUuid | SqlText | SqlTimestamp | SqlBoolean | SqlJsonb

record column =
  col_name :: string
  col_type :: sql_type
  col_primary_key :: bool
  col_unique :: bool
  col_not_null :: bool
  col_default :: "string option"

datatype table_constraint =
    ForeignKey string string string string
  | UniqueConstraint string "string list"

record table_def =
  tbl_name :: string
  tbl_columns :: "column list"
  tbl_constraints :: "table_constraint list"

definition mk_column :: "string \<Rightarrow> sql_type \<Rightarrow> bool \<Rightarrow> string option \<Rightarrow> column" where
  "mk_column n ty pk dflt =
     \<lparr>col_name = n, col_type = ty, col_primary_key = pk, col_unique = False,
      col_not_null = True, col_default = dflt\<rparr>"

definition refresh_tokens_table :: table_def where
  "refresh_tokens_table =
     \<lparr>tbl_name = ''refresh_tokens'',
      tbl_columns =
        [mk_column ''id'' SqlUuid True (Some ''gen_random_uuid()''),
         mk_column ''user_id'' SqlUuid False None,
         mk_column ''token'' SqlText False None,
         mk_column ''expires_at'' SqlTimestamp False None,
         mk_column ''is_revoked'' SqlBoolean False (Some ''false''),
         mk_column ''created_at'' SqlTimestamp False (Some ''now()'')],
      tbl_constraints =
        [ForeignKey ''refresh_tokens_user_id_users_id_fk'' ''user_id'' ''users'' ''id'']\<rparr>"

definition sessions_table :: table_def where
  "sessions_table =
     \<lparr>tbl_name = ''sessions'',
      tbl_columns =
        [mk_column ''id'' SqlUuid True (Some ''gen_random_uuid()''),
         mk_column ''user_id'' SqlUuid False None,
         mk_column ''data'' SqlJsonb False None,
         mk_column ''expires_at'' SqlTimestamp False None,
         mk_column ''created_at'' SqlTimestamp False (Some ''now()''),
         mk_column ''last_accessed_at'' SqlTimestamp False (Some ''now()'')],
      tbl_constraints =
        [ForeignKey ''sessions_user_id_users_id_fk'' ''user_id'' ''users'' ''id'']\<rparr>"

definition users_table :: table_def where
  "users_table =
     \<lparr>tbl_name = ''users'',
      tbl_columns =
        [mk_column ''id'' SqlUuid True (Some ''gen_random_uuid()''),
         mk_column ''provider'' SqlText False None,
         mk_column ''provider_id'' SqlText False None,
         mk_column ''email'' SqlText False None,
         mk_column ''name'' SqlText False None,
         mk_column ''created_at'' SqlTimestamp False (Some ''now()'')],
      tbl_constraints = []\<rparr>"

text \<open>
  The column sets on which a table enforces uniqueness: a primary-key or \<open>UNIQUE\<close>
  column, and each \<open>UNIQUE\<close> table constraint.
\<close>

fun constraint_key :: "table_constraint \<Rightarrow> string list list" where
  "constraint_key (UniqueConstraint _ cs) = [cs]"
| "constraint_key (ForeignKey _ _ _ _) = []"

definition unique_keys :: "table_def \<Rightarrow> string list list" where
  "unique_keys t =
     map (\<lambda>c. [col_name c]) (filter (\<lambda>c. col_primary_key c \<or> col_unique c) (tbl_columns t))
     @ concat (map constraint_key (tbl_constraints t))"

text \<open>
  A row as the storage engine sees it (column name and value), and the uniqueness check
  of an insert: the insert is refused when an existing row agrees with the new one on
  every column of some unique key.
\<close>

type_synonym sql_row = "(string \<times> string) list"

definition agree_on :: "string list \<Rightarrow> sql_row \<Rightarrow> sql_row \<Rightarrow> bool" where
  "agree_on k r r' = list_all (\<lambda>c. map_of r c = map_of r' c) k"

definition sql_insert :: "table_def \<Rightarrow> sql_row list \<Rightarrow> sql_row \<Rightarrow> string list + sql_row list" where
  "sql_insert t rows r =
     (case filter (\<lambda>k. list_ex (agree_on k r) rows) (unique_keys t) of
        [] \<Rightarrow> Inr (rows @ [r])
      | k # _ \<Rightarrow> Inl k)"

text \<open>
  The registries the two handlers can produce, starting from the empty map; the second
  part of a callback may hold the entry of any earlier registry.
\<close>

inductive reachable_states :: "oidc_env \<Rightarrow> states \<Rightarrow> bool" for env :: oidc_env where
  initial: "reachable_states env Map.empty"
| after_login:
    "reachable_states env sts \<Longrightarrow> reachable_states env (snd (login env sts prov verifier st))"
| after_finish:
    "reachable_states env sts \<Longrightarrow>
     reachable_states env (fst (snd (callback_finish env g (sts, d) prov currentUrl storedState)))"

section \<open>Concrete stores used in the examples\<close>

definition ex_user :: user_row where
  "ex_user = \<lparr>u_id = ''u1'', u_provider = ''google'', u_providerId = ''123'',
               u_email = ''a@b.com'', u_name = ''A'', u_createdAt = 0\<rparr>"

definition ex_token :: refresh_token_row where
  "ex_token = \<lparr>rt_id = ''r1'', rt_userId = ''u1'', rt_token = ''tok'',
                rt_expiresAt = 1000, rt_isRevoked = False, rt_createdAt = 0\<rparr>"

definition ex_session :: session_row where
  "ex_session = \<lparr>s_id = ''s1'', s_userId = ''u1'',
                  s_data = [(''provider'', JString ''google'')],
                  s_expiresAt = 5000, s_createdAt = 0, s_lastAccessedAt = 100\<rparr>"

definition ex_db :: db where
  "ex_db = \<lparr>users = [ex_user], refreshTokens = [ex_token], sessions = [ex_session]\<rparr>"

definition ex_pair :: token_pair where
  "ex_pair = \<lparr>accessToken = \<lparr>jwt_userId = ''u1'', jwt_provider = ''google'',
                              jwt_expiresIn = ''1h''\<rparr>,
              expiresIn = JNumber 2592000, refreshToken = ''tok2''\<rparr>"

definition ex_refreshed :: refresh_result where
  "ex_refreshed = \<lparr>accessToken = \<lparr>jwt_userId = ''u1'', jwt_provider = ''google'',
                                   jwt_expiresIn = ''1h''\<rparr>,
                   expiresIn = JString ''1h''\<rparr>"

definition ex_db_issued :: db where
  "ex_db_issued =
     ex_db\<lparr>refreshTokens :=
       [ex_token,
        \<lparr>rt_id = ''r2'', rt_userId = ''u1'', rt_token = ''tok2'', rt_expiresAt = 2592000000,
         rt_isRevoked = False, rt_createdAt = 0\<rparr>]\<rparr>"

text \<open>A process running in UTC.\<close>

definition utc :: time_zone where
  "utc = \<lparr>LocalTZA = (\<lambda>t isUTC. 0)\<rparr>"


text \<open>
  An engine for the examples: it reads a string as a uuid when it has the form of 8, 4,
  4, 4 and 12 lower-case hexadecimal digits separated by hyphens, the form in which
  identifiers are stored, and accepts as text every string without a NUL character.  The
  general statements below hold for every engine and every time zone.
\<close>

fun shaped :: "string \<Rightarrow> string \<Rightarrow> bool" where
  "shaped [] [] = True"
| "shaped (p # ps) (c # cs) =
     ((if p = CHR ''x'' then c \<in> set ''0123456789abcdef'' else c = p) \<and> shaped ps cs)"
| "shaped _ _ = False"

definition ex_engine :: engine where
  "ex_engine =
     \<lparr>uuid_in = (\<lambda>s. if shaped ''xxxxxxxx-xxxx-xxxx-xxxx-xxxxxxxxxxxx'' s then Some s else None),
      text_in = (\<lambda>s. CHR 0x00 \<notin> set s)\<rparr>"

text \<open>
  A store with one session, created at noon UTC of 28 March 2026 (the instant
  1774699200000) and expiring at noon UTC of the next day.
\<close>

definition ex_sid :: string where
  "ex_sid = ''0a1b2c3d-0000-4000-8000-00000000000a''"

definition ex_session2 :: session_row where
  "ex_session2 = \<lparr>s_id = ex_sid, s_userId = ''0a1b2c3d-0000-4000-8000-00000000000b'',
                   s_data = [(''provider'', JString ''discord'')],
                   s_expiresAt = 1774785600000, s_createdAt = 1774699200000,
                   s_lastAccessedAt = 1774699200000\<rparr>"

definition ex_sdb :: db where
  "ex_sdb =
     \<lparr>users = [\<lparr>u_id = ''0a1b2c3d-0000-4000-8000-00000000000b'', u_provider = ''discord'',
                 u_providerId = ''123'', u_email = ''d@x.com'', u_name = ''D'',
                 u_createdAt = 1774699200000\<rparr>],
      refreshTokens = [], sessions = [ex_session2]\<rparr>"

text \<open>
  A router with the two configured providers, in a process running in UTC.  The code
  exchange succeeds for the callback URL \<open>/cb?code=good\<close> only.  The Discord profile has
  the id \<open>123\<close>.  On the path of the other provider the user-info answer has a body whose
  text \<open>JSON.parse\<close> rejects.
\<close>

definition ex_discord :: discordUser where
  "ex_discord = \<lparr>du_id = ''123'', du_email = ''d@x.com'', du_username = ''D'',
                  du_discriminator = ''0''\<rparr>"

definition ex_env :: oidc_env where
  "ex_env =
     \<lparr>BASE_URL = ''http://localhost:3000'',
      TZ = utc,
      clients = (\<lambda>p. p = ''google'' \<or> p = ''discord''),
      calculatePKCECodeChallenge = (\<lambda>v. v),
      buildAuthorizationUrl = (\<lambda>p ps. ''https://idp/authorize''),
      authorizationCodeGrant = (\<lambda>p url v st. if url = ''/cb?code=good'' then Some ''at'' else None),
      discordUsersMe = (\<lambda>at. DiscordResponse True 200 (Some ex_discord)),
      fetchProtectedResource = (\<lambda>p at. ResourceResponse (Some None))\<rparr>"

definition ex_env_down :: oidc_env where
  "ex_env_down = ex_env\<lparr>fetchProtectedResource := (\<lambda>p at. ResourceThrows)\<rparr>"

definition ex_gen :: callback_gen where
  "ex_gen =
     \<lparr>g_userId = ''u9'', g_userCreatedAt = 7000, g_tokenNow = 7000, g_randomUUID = ''tok9'',
      g_tokenId = ''r9'', g_tokenCreatedAt = 7000, g_lastLogin = 7000, g_sessionNow = 7000,
      g_sessionId = ''s9'', g_sessionCreatedAt = 7000\<rparr>"

text \<open>The values drawn by a second callback.\<close>

definition ex_gen2 :: callback_gen where
  "ex_gen2 =
     \<lparr>g_userId = ''u8'', g_userCreatedAt = 7500, g_tokenNow = 7500, g_randomUUID = ''tok8'',
      g_tokenId = ''r8'', g_tokenCreatedAt = 7500, g_lastLogin = 7500, g_sessionNow = 7500,
      g_sessionId = ''s8'', g_sessionCreatedAt = 7500\<rparr>"

definition ex_login2 :: login_result where
  "ex_login2 =
     \<lparr>accessToken = \<lparr>jwt_userId = ''u1'', jwt_provider = ''discord'', jwt_expiresIn = ''1h''\<rparr>,
      expiresIn = JNumber 2592000, refreshToken = ''tok8'', sessionId = ''s8''\<rparr>"

definition ex_pending :: "string \<Rightarrow> string \<Rightarrow> pending" where
  "ex_pending st prov = \<lparr>codeVerifier = ''v'', state = st, provider = prov\<rparr>"

definition ex_states :: "string \<Rightarrow> states" where
  "ex_states prov = snd (login ex_env Map.empty prov ''v'' ''S1'')"

definition ex_login :: "string \<Rightarrow> login_result" where
  "ex_login prov =
     \<lparr>accessToken = \<lparr>jwt_userId = ''u1'', jwt_provider = prov, jwt_expiresIn = ''1h''\<rparr>,
      expiresIn = JNumber 2592000, refreshToken = ''tok9'', sessionId = ''s9''\<rparr>"

definition ex_db_login :: "string \<Rightarrow> string \<Rightarrow> string \<Rightarrow> db" where
  "ex_db_login prov mail nm =
     ex_db\<lparr>refreshTokens :=
             [ex_token,
              \<lparr>rt_id = ''r9'', rt_userId = ''u1'', rt_token = ''tok9'',
               rt_expiresAt = 2592007000, rt_isRevoked = False, rt_createdAt = 7000\<rparr>],
           sessions :=
             [ex_session,
              \<lparr>s_id = ''s9'', s_userId = ''u1'',
               s_data = [(''provider'', JString prov), (''email'', JString mail),
                         (''name'', JString nm), (''lastLogin'', JDate 7000)],
               s_expiresAt = 86407000, s_createdAt = 7000, s_lastAccessedAt = 7000\<rparr>]\<rparr>"

text \<open>Two rows of the \<open>users\<close> table with the same provider and provider id.\<close>

definition ex_row :: "string \<Rightarrow> sql_row" where
  "ex_row i = [(''id'', i), (''provider'', ''google''), (''provider_id'', ''123''),
              (''email'', ''a@b.com''), (''name'', ''A''), (''created_at'', ''0'')]"

definition ex_token_row :: "string \<Rightarrow> sql_row" where
  "ex_token_row i = [(''id'', i), (''user_id'', ''u1''), (''token'', ''tok''),
                    (''expires_at'', ''1000''), (''is_revoked'', ''false''),
                    (''created_at'', ''0'')]"

lemmas ex_defs = ex_db_def ex_user_def ex_token_def ex_session_def ex_pair_def
  ex_refreshed_def ex_db_issued_def

lemmas ex_router_defs = ex_discord_def ex_env_def ex_env_down_def ex_gen_def
  ex_pending_def ex_states_def ex_login_def ex_db_login_def utc_def

lemmas ex_session_defs = ex_engine_def ex_sid_def ex_session2_def ex_sdb_def


section \<open>The credential issuer\<close>

subsection \<open>Refreshing an access token\<close>

text \<open>
  What the query of \<open>refreshAccessToken\<close> accepts: the call succeeds exactly when some row
  has the token value, is not revoked and has \<open>expiresAt < now\<close>, and the user of the
  first such row exists.
\<close>

lemma refreshAccessToken_succeeds_iff:
  "(\<exists>res. refreshAccessToken d tok now = Inr res) \<longleftrightarrow>
   (\<exists>r rs. filter (\<lambda>r. rt_token r = tok \<and> \<not> rt_isRevoked r \<and> rt_expiresAt r < now)
              (refreshTokens d) = r # rs
      \<and> rt_userId r \<in> u_id ` set (users d))"
proof (cases "filter (\<lambda>r. rt_token r = tok \<and> \<not> rt_isRevoked r \<and> rt_expiresAt r < now)
                (refreshTokens d)")
  case Nil
  then show ?thesis by (simp add: refreshAccessToken_def)
next
  case (Cons r rs)
  show ?thesis
  proof (cases "filter (\<lambda>u. u_id u = rt_userId r) (users d)")
    case Nil
    then have "rt_userId r \<notin> u_id ` set (users d)"
      by (auto simp: filter_empty_conv)
    with Cons Nil show ?thesis by (simp add: refreshAccessToken_def)
  next
    case (Cons u us)
    then have "u \<in> set (filter (\<lambda>u. u_id u = rt_userId r) (users d))" by simp
    then have "rt_userId r \<in> u_id ` set (users d)" by force
    with \<open>filter _ (refreshTokens d) = r # rs\<close> Cons show ?thesis
      by (simp add: refreshAccessToken_def)
  qed
qed

text \<open>
  C1.  The claim: \<open>refreshAccessToken\<close> succeeds if and only if a stored record matches
  the token, is not revoked, is not expired, and its user exists.  On the store \<open>ex_db\<close>
  the token \<open>tok\<close> is stored, not revoked, owned by an existing user and expires at
  1000.  At time 500, before its expiry, the service throws and the route answers 401
  \<open>Invalid refresh token\<close>; at time 2000, after its expiry, the service mints an access
  token.  The query compares with \<open>lt(expiresAt, now)\<close>, so it accepts exactly the
  expired records.
\<close>

theorem refreshAccessToken_rejects_unexpired_token:
  "rt_token ex_token = ''tok'' \<and> rt_isRevoked ex_token = False \<and> 500 < rt_expiresAt ex_token
   \<and> rt_userId ex_token = u_id ex_user
   \<and> refreshAccessToken ex_db ''tok'' 500 = Inl (Error ''Invalid refresh token'')
   \<and> refresh_route ex_db ''tok'' 500 = Json 401 (ErrorBody ''Invalid refresh token'')
   \<and> rt_expiresAt ex_token < 2000
   \<and> refreshAccessToken ex_db ''tok'' 2000 = Inr ex_refreshed"
  by (simp add: refreshAccessToken_def refresh_route_def ex_defs jwt_sign_def
      ACCESS_TOKEN_EXPIRES_IN_def)

subsection \<open>Revoking\<close>

lemma revoke_Inr:
  "text_in e tok \<Longrightarrow>
   revokeRefreshToken e d tok =
     Inr (d\<lparr>refreshTokens :=
             map (\<lambda>r. if rt_token r = tok then r\<lparr>rt_isRevoked := True\<rparr> else r)
               (refreshTokens d)\<rparr>)"
  by (simp add: revokeRefreshToken_def)

lemma revoke_Inl:
  "\<not> text_in e tok \<Longrightarrow> revokeRefreshToken e d tok = Inl (DbError InvalidByteSequence)"
  by (simp add: revokeRefreshToken_def)

lemma revoke_Inr_iff:
  "revokeRefreshToken e d tok = Inr d' \<longleftrightarrow>
   text_in e tok \<and>
   d' = d\<lparr>refreshTokens :=
            map (\<lambda>r. if rt_token r = tok then r\<lparr>rt_isRevoked := True\<rparr> else r)
              (refreshTokens d)\<rparr>"
  by (cases "text_in e tok") (auto simp: revoke_Inr revoke_Inl)

lemma revoke_map_idem:
  "map (\<lambda>r. if rt_token r = tok then r\<lparr>rt_isRevoked := True\<rparr> else r)
     (map (\<lambda>r. if rt_token r = tok then r\<lparr>rt_isRevoked := True\<rparr> else r) xs)
   = map (\<lambda>r. if rt_token r = tok then r\<lparr>rt_isRevoked := True\<rparr> else r) xs"
  by (induction xs) simp_all

lemma revoke_map_matching:
  "filter (\<lambda>r. rt_token r = tok)
     (map (\<lambda>r. if rt_token r = tok then r\<lparr>rt_isRevoked := True\<rparr> else r) xs)
   = map (\<lambda>r. r\<lparr>rt_isRevoked := True\<rparr>) (filter (\<lambda>r. rt_token r = tok) xs)"
  by (induction xs) simp_all

lemma revoke_map_others:
  "filter (\<lambda>r. rt_token r \<noteq> tok)
     (map (\<lambda>r. if rt_token r = tok then r\<lparr>rt_isRevoked := True\<rparr> else r) xs)
   = filter (\<lambda>r. rt_token r \<noteq> tok) xs"
  by (induction xs) simp_all

lemma revoke_row_same: "rt_isRevoked r \<Longrightarrow> r\<lparr>rt_isRevoked := True\<rparr> = r"
  by (cases r) simp

lemma revoke_map_noop:
  "\<forall>r \<in> set xs. rt_token r = tok \<longrightarrow> rt_isRevoked r \<Longrightarrow>
   map (\<lambda>r. if rt_token r = tok then r\<lparr>rt_isRevoked := True\<rparr> else r) xs = xs"
  by (rule map_idI) (simp add: revoke_row_same)

lemma revoke_row_marked:
  "rt_token (if rt_token x = tok then x\<lparr>rt_isRevoked := True\<rparr> else x) = tok \<longrightarrow>
   rt_isRevoked (if rt_token x = tok then x\<lparr>rt_isRevoked := True\<rparr> else x)"
  by simp

lemma revoke_map_marked:
  "\<forall>r \<in> set (map (\<lambda>r. if rt_token r = tok then r\<lparr>rt_isRevoked := True\<rparr> else r) xs).
     rt_token r = tok \<longrightarrow> rt_isRevoked r"
  by (simp only: set_map ball_simps) (intro ballI, rule revoke_row_marked)

text \<open>
  After a revocation the same token is refused, whatever the time and whatever the store
  held before.
\<close>

lemma refresh_after_revoke_fails:
  assumes "revokeRefreshToken e d tok = Inr d'"
  shows "refreshAccessToken d' tok now = Inl (Error ''Invalid refresh token'')"
proof -
  have none: "filter (\<lambda>r. rt_token r = tok \<and> rt_isRevoked r = False \<and> rt_expiresAt r < now)
          (map (\<lambda>r. if rt_token r = tok then r\<lparr>rt_isRevoked := True\<rparr> else r) xs) = []" for xs
    by (induction xs) simp_all
  from assms have rows: "refreshTokens d' =
      map (\<lambda>r. if rt_token r = tok then r\<lparr>rt_isRevoked := True\<rparr> else r) (refreshTokens d)"
    by (simp add: revoke_Inr_iff)
  show ?thesis
    unfolding refreshAccessToken_def rows none by simp
qed

text \<open>
  C8, as claimed: revoking a nonexistent token is not an error.  No record of \<open>ex_db\<close>
  has the token made of the letter \<open>a\<close> and a NUL character, a string that a JSON body
  can carry.  The engine refuses it as text, the update throws, and the route answers
  500 \<open>Failed to revoke token\<close>.
\<close>

theorem revokeRefreshToken_refused_token:
  "[CHR ''a'', CHR 0x00] \<notin> rt_token ` set (refreshTokens ex_db)
   \<and> revokeRefreshToken ex_engine ex_db [CHR ''a'', CHR 0x00] = Inl (DbError InvalidByteSequence)
   \<and> revoke_route ex_engine ex_db [CHR ''a'', CHR 0x00]
       = (Json 500 (ErrorBody ''Failed to revoke token''), ex_db)"
  by (simp add: revokeRefreshToken_def revoke_route_def ex_engine_def ex_defs)

text \<open>
  C8, amended: for every token that the engine accepts as text, \<open>revokeRefreshToken\<close>
  returns without an error and is idempotent: applied to the store it returned, it
  returns that store again.  After it, every record with the token value is revoked: the
  records with the token value are the former ones with \<open>isRevoked\<close> set, the other
  records and the other tables are as before.  When no record has the token value, or
  all that have it are revoked already, the store is unchanged.  The route answers 200
  for such a token when it is not empty.  For a token that the engine refuses as text the
  update throws, the store is unchanged and the route answers 500.
\<close>

theorem revokeRefreshToken_idempotent:
  "(text_in e tok \<longrightarrow> (\<exists>d'. revokeRefreshToken e d tok = Inr d'))
   \<and> (revokeRefreshToken e d tok = Inr d' \<longrightarrow>
        revokeRefreshToken e d' tok = Inr d'
      \<and> (\<forall>r \<in> set (refreshTokens d'). rt_token r = tok \<longrightarrow> rt_isRevoked r)
      \<and> filter (\<lambda>r. rt_token r = tok) (refreshTokens d')
          = map (\<lambda>r. r\<lparr>rt_isRevoked := True\<rparr>) (filter (\<lambda>r. rt_token r = tok) (refreshTokens d))
      \<and> filter (\<lambda>r. rt_token r \<noteq> tok) (refreshTokens d')
          = filter (\<lambda>r. rt_token r \<noteq> tok) (refreshTokens d)
      \<and> users d' = users d
      \<and> sessions d' = sessions d
      \<and> ((\<forall>r \<in> set (refreshTokens d). rt_token r = tok \<longrightarrow> rt_isRevoked r) \<longrightarrow> d' = d)
      \<and> (tok \<noteq> [] \<longrightarrow>
           revoke_route e d tok = (Json 200 (MessageBody ''Token revoked successfully''), d')))
   \<and> (\<not> text_in e tok \<longrightarrow>
        revokeRefreshToken e d tok = Inl (DbError InvalidByteSequence)
      \<and> (tok \<noteq> [] \<longrightarrow>
           revoke_route e d tok = (Json 500 (ErrorBody ''Failed to revoke token''), d)))"
proof (intro conjI impI)
  assume "text_in e tok"
  then show "\<exists>d'. revokeRefreshToken e d tok = Inr d'"
    by (simp add: revoke_Inr)
next
  assume bad: "\<not> text_in e tok"
  then show "revokeRefreshToken e d tok = Inl (DbError InvalidByteSequence)"
    by (rule revoke_Inl)
  assume "tok \<noteq> []"
  with bad show "revoke_route e d tok = (Json 500 (ErrorBody ''Failed to revoke token''), d)"
    by (simp add: revoke_route_def revoke_Inl)
next
  assume r: "revokeRefreshToken e d tok = Inr d'"
  then have ok: "text_in e tok" and rows: "refreshTokens d' =
      map (\<lambda>r. if rt_token r = tok then r\<lparr>rt_isRevoked := True\<rparr> else r) (refreshTokens d)"
    and rest: "users d' = users d" "sessions d' = sessions d" "db.more d' = db.more d"
    by (simp_all add: revoke_Inr_iff)
  have "d'\<lparr>refreshTokens :=
            map (\<lambda>r. if rt_token r = tok then r\<lparr>rt_isRevoked := True\<rparr> else r)
              (refreshTokens d')\<rparr> = d'"
    by (rule db.equality) (simp_all add: rows revoke_map_idem del: map_map)
  with ok show "revokeRefreshToken e d' tok = Inr d'"
    by (simp add: revoke_Inr)
  show "\<forall>r \<in> set (refreshTokens d'). rt_token r = tok \<longrightarrow> rt_isRevoked r"
    unfolding rows by (rule revoke_map_marked)
  show "filter (\<lambda>r. rt_token r = tok) (refreshTokens d')
          = map (\<lambda>r. r\<lparr>rt_isRevoked := True\<rparr>) (filter (\<lambda>r. rt_token r = tok) (refreshTokens d))"
    unfolding rows by (rule revoke_map_matching)
  show "filter (\<lambda>r. rt_token r \<noteq> tok) (refreshTokens d')
          = filter (\<lambda>r. rt_token r \<noteq> tok) (refreshTokens d)"
    unfolding rows by (rule revoke_map_others)
  show "users d' = users d" "sessions d' = sessions d"
    by (rule rest)+
  show "d' = d" if "\<forall>r \<in> set (refreshTokens d). rt_token r = tok \<longrightarrow> rt_isRevoked r"
    by (rule db.equality) (simp_all only: rows rest revoke_map_noop [OF that])
  show "revoke_route e d tok = (Json 200 (MessageBody ''Token revoked successfully''), d')"
    if "tok \<noteq> []"
    using that r by (simp add: revoke_route_def)
qed

theorem revokeRefreshToken_idempotent_witness:
  "text_in ex_engine ''tok''
   \<and> revokeRefreshToken ex_engine ex_db ''tok''
       = Inr (ex_db\<lparr>refreshTokens := [ex_token\<lparr>rt_isRevoked := True\<rparr>]\<rparr>)
   \<and> revokeRefreshToken ex_engine (ex_db\<lparr>refreshTokens := [ex_token\<lparr>rt_isRevoked := True\<rparr>]\<rparr>)
         ''tok''
       = Inr (ex_db\<lparr>refreshTokens := [ex_token\<lparr>rt_isRevoked := True\<rparr>]\<rparr>)
   \<and> ''nope'' \<notin> rt_token ` set (refreshTokens ex_db)
   \<and> revokeRefreshToken ex_engine ex_db ''nope'' = Inr ex_db
   \<and> revoke_route ex_engine ex_db ''nope''
       = (Json 200 (MessageBody ''Token revoked successfully''), ex_db)
   \<and> \<not> text_in ex_engine [CHR ''a'', CHR 0x00]
   \<and> revoke_route ex_engine ex_db [CHR ''a'', CHR 0x00]
       = (Json 500 (ErrorBody ''Failed to revoke token''), ex_db)"
proof -
  have a: "revokeRefreshToken ex_engine ex_db ''tok''
       = Inr (ex_db\<lparr>refreshTokens := [ex_token\<lparr>rt_isRevoked := True\<rparr>]\<rparr>)"
    by (simp add: revokeRefreshToken_def ex_engine_def ex_defs)
  have b: "revokeRefreshToken ex_engine ex_db ''nope'' = Inr ex_db"
    by (simp add: revokeRefreshToken_def ex_engine_def ex_defs)
  have c: "text_in ex_engine ''tok''" "\<not> text_in ex_engine [CHR ''a'', CHR 0x00]"
    "''nope'' \<notin> rt_token ` set (refreshTokens ex_db)"
    by (simp_all add: ex_engine_def ex_defs)
  from a b c
    revokeRefreshToken_idempotent [of ex_engine "''tok''" ex_db
      "ex_db\<lparr>refreshTokens := [ex_token\<lparr>rt_isRevoked := True\<rparr>]\<rparr>"]
    revokeRefreshToken_idempotent [of ex_engine "''nope''" ex_db ex_db]
    revokeRefreshToken_idempotent [of ex_engine "[CHR ''a'', CHR 0x00]" ex_db ex_db]
  show ?thesis by simp
qed

subsection \<open>The cleanup sweep\<close>

text \<open>
  C5, as claimed: the sweep deletes the records with \<open>expiresAt \<le> now\<close> or revoked.  The
  record \<open>ex_token\<close> is not revoked and expires at 1000; a sweep at time 1000 keeps it.
\<close>

theorem cleanupExpiredTokens_keeps_boundary:
  "rt_isRevoked ex_token = False \<and> rt_expiresAt ex_token \<le> 1000
   \<and> refreshTokens (cleanupExpiredTokens ex_db 1000) = [ex_token]"
  by (simp add: cleanupExpiredTokens_def ex_defs)

text \<open>
  C5, amended: for every store and every time \<open>now\<close>, \<open>cleanupExpiredTokens\<close> deletes
  exactly the refresh-token records with \<open>expiresAt < now\<close> or \<open>revoked = true\<close>; the
  other records stay, unchanged and in their order, and so do the other tables.
\<close>

theorem cleanupExpiredTokens_exact:
  "refreshTokens (cleanupExpiredTokens d now) =
     filter (\<lambda>r. \<not> (rt_expiresAt r < now \<or> rt_isRevoked r)) (refreshTokens d)
   \<and> users (cleanupExpiredTokens d now) = users d
   \<and> sessions (cleanupExpiredTokens d now) = sessions d"
  by (simp add: cleanupExpiredTokens_def)

subsection \<open>The expiresIn field\<close>

lemma generateTokens_Inr:
  "generateTokens z d userId prov uuid now rowId dbNow = Inr (tokens, d') \<Longrightarrow>
     tokens = \<lparr>accessToken = jwt_sign userId prov ACCESS_TOKEN_EXPIRES_IN,
               expiresIn = JNumber REFRESH_TOKEN_EXPIRES_IN, refreshToken = uuid\<rparr>"
  by (simp add: generateTokens_def Let_def split: sum.splits)

lemma refreshAccessToken_Inr:
  "refreshAccessToken d tok now = Inr res \<Longrightarrow>
     expiresIn res = JString ACCESS_TOKEN_EXPIRES_IN
     \<and> jwt_expiresIn (accessToken res) = ACCESS_TOKEN_EXPIRES_IN"
  by (auto simp add: refreshAccessToken_def jwt_sign_def split: list.splits)

text \<open>
  C10.  Whenever \<open>generateTokens\<close> returns, its \<open>expiresIn\<close> is the number 2592000, the
  value of \<open>REFRESH_TOKEN_EXPIRES_IN\<close> (30 days in seconds), while the access token it
  signs is given the validity \<open>1h\<close>; whenever \<open>refreshAccessToken\<close> returns, its
  \<open>expiresIn\<close> is the string \<open>1h\<close>.  A number and a string are different values.
\<close>

theorem generateTokens_expiresIn:
  "REFRESH_TOKEN_EXPIRES_IN = 2592000
   \<and> (generateTokens z d userId prov uuid now rowId dbNow = Inr (tokens, d') \<longrightarrow>
        expiresIn tokens = JNumber 2592000 \<and> jwt_expiresIn (accessToken tokens) = ''1h'')
   \<and> (refreshAccessToken d tok now' = Inr res \<longrightarrow>
        expiresIn res = JString ''1h'' \<and> jwt_expiresIn (accessToken res) = ''1h'')
   \<and> JNumber 2592000 \<noteq> JString ''1h''"
proof -
  have c: "REFRESH_TOKEN_EXPIRES_IN = 2592000"
    by (simp add: REFRESH_TOKEN_EXPIRES_IN_def)
  have g: "expiresIn tokens = JNumber 2592000 \<and> jwt_expiresIn (accessToken tokens) = ''1h''"
    if "generateTokens z d userId prov uuid now rowId dbNow = Inr (tokens, d')"
    using generateTokens_Inr [OF that]
    by (simp add: c jwt_sign_def ACCESS_TOKEN_EXPIRES_IN_def)
  have r: "expiresIn res = JString ''1h'' \<and> jwt_expiresIn (accessToken res) = ''1h''"
    if "refreshAccessToken d tok now' = Inr res"
    using refreshAccessToken_Inr [OF that] by (simp add: ACCESS_TOKEN_EXPIRES_IN_def)
  have ne: "JNumber 2592000 \<noteq> JString ''1h''" by simp
  from c g r ne show ?thesis by blast
qed

theorem generateTokens_expiresIn_witness:
  "generateTokens utc ex_db ''u1'' ''google'' ''tok2'' 0 ''r2'' 0 = Inr (ex_pair, ex_db_issued)
   \<and> expiresIn ex_pair = JNumber 2592000
   \<and> refreshAccessToken ex_db ''tok'' 2000 = Inr ex_refreshed
   \<and> expiresIn ex_refreshed = JString ''1h''"
proof -
  have g: "generateTokens utc ex_db ''u1'' ''google'' ''tok2'' 0 ''r2'' 0 = Inr (ex_pair, ex_db_issued)"
    by (simp add: generateTokens_def insert_refresh_token_def ex_defs jwt_sign_def Let_def
        ACCESS_TOKEN_EXPIRES_IN_def REFRESH_TOKEN_EXPIRES_IN_def addSeconds_def utc_def)
  have r: "refreshAccessToken ex_db ''tok'' 2000 = Inr ex_refreshed"
    by (simp add: refreshAccessToken_def ex_defs jwt_sign_def ACCESS_TOKEN_EXPIRES_IN_def)
  from generateTokens_expiresIn
         [of utc ex_db "''u1''" "''google''" "''tok2''" 0 "''r2''" 0 ex_pair ex_db_issued
             "''tok''" 2000 ex_refreshed] g r
  show ?thesis by simp
qed

section \<open>The session manager\<close>

text \<open>Rows selected and updated by id, under the primary key of the table.\<close>

lemma filter_id_absent:
  "sid \<notin> s_id ` set xs \<Longrightarrow> filter (\<lambda>x. s_id x = sid) xs = []"
  by (auto simp: filter_empty_conv)

lemma filter_id_unique:
  "distinct (map s_id xs) \<Longrightarrow> s \<in> set xs \<Longrightarrow> filter (\<lambda>x. s_id x = s_id s) xs = [s]"
proof (induction xs)
  case Nil
  then show ?case by simp
next
  case (Cons a xs)
  show ?case
  proof (cases "a = s")
    case True
    with Cons.prems have "s_id s \<notin> s_id ` set xs" by simp
    then have "filter (\<lambda>x. s_id x = s_id s) xs = []"
      by (rule filter_id_absent)
    with True show ?thesis by simp
  next
    case False
    with Cons.prems have in_xs: "s \<in> set xs" by simp
    with Cons.prems have "s_id a \<noteq> s_id s" by force
    moreover from Cons.IH Cons.prems in_xs have "filter (\<lambda>x. s_id x = s_id s) xs = [s]" by simp
    ultimately show ?thesis by simp
  qed
qed

lemma map_upd_same:
  "(\<And>x. s_id (g x) = s_id x) \<Longrightarrow>
   filter (\<lambda>x. s_id x = k) (map (\<lambda>x. if s_id x = k then g x else x) xs)
     = map g (filter (\<lambda>x. s_id x = k) xs)"
  by (induction xs) simp_all

lemma map_upd_other:
  "(\<And>x. s_id (g x) = s_id x) \<Longrightarrow>
   filter (\<lambda>x. s_id x \<noteq> k) (map (\<lambda>x. if s_id x = k then g x else x) xs)
     = filter (\<lambda>x. s_id x \<noteq> k) xs"
  by (induction xs) simp_all

lemma map_upd_ids:
  "(\<And>x. s_id (g x) = s_id x) \<Longrightarrow>
   map s_id (map (\<lambda>x. if s_id x = k then g x else x) xs) = map s_id xs"
  by (induction xs) simp_all

lemma getSession_bad_id:
  "uuid_in e given = None \<Longrightarrow>
   getSession e d given now now' = Inl (DbError (InvalidUuid given))"
  by (simp add: getSession_def)

lemma getSession_none:
  "uuid_in e given = Some sid \<Longrightarrow> filter (\<lambda>x. s_id x = sid) (sessions d) = [] \<Longrightarrow>
   getSession e d given now now' = Inr (None, d)"
  by (simp add: getSession_def)

lemma getSession_expired:
  "uuid_in e given = Some sid \<Longrightarrow> filter (\<lambda>x. s_id x = sid) (sessions d) = s # rest \<Longrightarrow>
   s_expiresAt s < now \<Longrightarrow> getSession e d given now now' = Inr (None, d)"
  by (simp add: getSession_def)

lemma getSession_live:
  "uuid_in e given = Some sid \<Longrightarrow> filter (\<lambda>x. s_id x = sid) (sessions d) = s # rest \<Longrightarrow>
   now \<le> s_expiresAt s \<Longrightarrow>
   getSession e d given now now' =
     Inr (Some s,
          d\<lparr>sessions := map (\<lambda>x. if s_id x = sid then x\<lparr>s_lastAccessedAt := now'\<rparr> else x)
                         (sessions d)\<rparr>)"
  by (simp add: getSession_def)

text \<open>
  C6, as claimed: not-found, not an error, when the session is missing; usable iff
  \<open>expiresAt > now\<close>; the session returned carries \<open>lastAccessedAt\<close> updated to the fetch
  time.  The store \<open>ex_sdb\<close> holds one session, which expires at 1774785600000 and was
  last accessed at 1774699200000.  For the id \<open>zz\<close>, which no session has and which is
  not a uuid, the call throws.  Fetched at the instant of its expiry the session is
  returned, not not-found.  Fetched at 1774700000000 with the update one millisecond
  later, the stored row gets the new \<open>lastAccessedAt\<close>, and the session returned is the
  row as it was read, with the old one.
\<close>

theorem getSession_boundary_and_stale:
  "getSession ex_engine ex_sdb ''zz'' 1774700000000 1774700000001
     = Inl (DbError (InvalidUuid ''zz''))
   \<and> s_expiresAt ex_session2 = 1774785600000
   \<and> getSession ex_engine ex_sdb ex_sid 1774785600000 1774785600001
       = Inr (Some ex_session2,
              ex_sdb\<lparr>sessions := [ex_session2\<lparr>s_lastAccessedAt := 1774785600001\<rparr>]\<rparr>)
   \<and> s_lastAccessedAt ex_session2 = 1774699200000
   \<and> getSession ex_engine ex_sdb ex_sid 1774700000000 1774700000001
       = Inr (Some ex_session2,
              ex_sdb\<lparr>sessions := [ex_session2\<lparr>s_lastAccessedAt := 1774700000001\<rparr>]\<rparr>)"
  by (simp add: getSession_def ex_session_defs)

text \<open>
  C6, amended: for a session id that the engine reads as a uuid, \<open>getSession\<close> returns
  not-found, and leaves the store unchanged, when no session has the id or when the
  session's \<open>expiresAt < now\<close> (a session is usable iff \<open>expiresAt \<ge> now\<close>).  On a found,
  usable session it sets the stored \<open>lastAccessedAt\<close> to the time of the update and
  changes nothing else; the session it returns is the row as read before the update,
  which carries the previous \<open>lastAccessedAt\<close>.  For a session id that the engine does not
  read as a uuid the call throws.
\<close>

theorem getSession_amended:
  "(uuid_in e given = None \<longrightarrow>
      getSession e d given now now' = Inl (DbError (InvalidUuid given)))
   \<and> (uuid_in e given = Some sid \<and> sid \<notin> s_id ` set (sessions d) \<longrightarrow>
        getSession e d given now now' = Inr (None, d))
   \<and> (uuid_in e given = Some (s_id s) \<and> distinct (map s_id (sessions d))
        \<and> s \<in> set (sessions d) \<longrightarrow>
        (s_expiresAt s < now \<longrightarrow> getSession e d given now now' = Inr (None, d))
      \<and> (now \<le> s_expiresAt s \<longrightarrow>
           getSession e d given now now'
             = Inr (Some s,
                    d\<lparr>sessions :=
                        map (\<lambda>x. if s_id x = s_id s then x\<lparr>s_lastAccessedAt := now'\<rparr> else x)
                          (sessions d)\<rparr>)
         \<and> filter (\<lambda>x. s_id x = s_id s)
              (map (\<lambda>x. if s_id x = s_id s then x\<lparr>s_lastAccessedAt := now'\<rparr> else x)
                 (sessions d))
             = [s\<lparr>s_lastAccessedAt := now'\<rparr>]
         \<and> filter (\<lambda>x. s_id x \<noteq> s_id s)
              (map (\<lambda>x. if s_id x = s_id s then x\<lparr>s_lastAccessedAt := now'\<rparr> else x)
                 (sessions d))
             = filter (\<lambda>x. s_id x \<noteq> s_id s) (sessions d)))"
proof (intro conjI impI; (elim conjE)?)
  assume "uuid_in e given = None"
  then show "getSession e d given now now' = Inl (DbError (InvalidUuid given))"
    by (rule getSession_bad_id)
next
  assume "uuid_in e given = Some sid" "sid \<notin> s_id ` set (sessions d)"
  then show "getSession e d given now now' = Inr (None, d)"
    by (simp add: getSession_none filter_id_absent)
next
  assume u: "uuid_in e given = Some (s_id s)"
    and dist: "distinct (map s_id (sessions d))" and mem: "s \<in> set (sessions d)"
  have one: "filter (\<lambda>x. s_id x = s_id s) (sessions d) = [s]"
    by (rule filter_id_unique [OF dist mem])
  show "getSession e d given now now' = Inr (None, d)" if "s_expiresAt s < now"
    by (rule getSession_expired [OF u one that])
  show "getSession e d given now now'
             = Inr (Some s,
                    d\<lparr>sessions :=
                        map (\<lambda>x. if s_id x = s_id s then x\<lparr>s_lastAccessedAt := now'\<rparr> else x)
                          (sessions d)\<rparr>)"
    if "now \<le> s_expiresAt s"
    by (rule getSession_live [OF u one that])
  show "filter (\<lambda>x. s_id x = s_id s)
              (map (\<lambda>x. if s_id x = s_id s then x\<lparr>s_lastAccessedAt := now'\<rparr> else x)
                 (sessions d))
             = [s\<lparr>s_lastAccessedAt := now'\<rparr>]"
    by (simp add: map_upd_same one)
  show "filter (\<lambda>x. s_id x \<noteq> s_id s)
              (map (\<lambda>x. if s_id x = s_id s then x\<lparr>s_lastAccessedAt := now'\<rparr> else x)
                 (sessions d))
             = filter (\<lambda>x. s_id x \<noteq> s_id s) (sessions d)"
    by (simp add: map_upd_other)
qed

theorem getSession_amended_witness:
  "uuid_in ex_engine ''zz'' = None
   \<and> getSession ex_engine ex_sdb ''zz'' 1774700000000 1774700000001
       = Inl (DbError (InvalidUuid ''zz''))
   \<and> uuid_in ex_engine ''0a1b2c3d-0000-4000-8000-00000000000c''
       = Some ''0a1b2c3d-0000-4000-8000-00000000000c''
   \<and> ''0a1b2c3d-0000-4000-8000-00000000000c'' \<notin> s_id ` set (sessions ex_sdb)
   \<and> getSession ex_engine ex_sdb ''0a1b2c3d-0000-4000-8000-00000000000c'' 1774700000000
         1774700000001 = Inr (None, ex_sdb)
   \<and> uuid_in ex_engine ex_sid = Some (s_id ex_session2)
   \<and> distinct (map s_id (sessions ex_sdb)) \<and> ex_session2 \<in> set (sessions ex_sdb)
   \<and> s_expiresAt ex_session2 < 1774790000000
   \<and> getSession ex_engine ex_sdb ex_sid 1774790000000 1774790000001 = Inr (None, ex_sdb)
   \<and> 1774700000000 \<le> s_expiresAt ex_session2
   \<and> getSession ex_engine ex_sdb ex_sid 1774700000000 1774700000001
       = Inr (Some ex_session2,
              ex_sdb\<lparr>sessions := [ex_session2\<lparr>s_lastAccessedAt := 1774700000001\<rparr>]\<rparr>)"
proof -
  have u: "uuid_in ex_engine ''zz'' = None"
    "uuid_in ex_engine ''0a1b2c3d-0000-4000-8000-00000000000c''
       = Some ''0a1b2c3d-0000-4000-8000-00000000000c''"
    "uuid_in ex_engine ex_sid = Some (s_id ex_session2)"
    by (simp_all add: ex_session_defs)
  have h: "''0a1b2c3d-0000-4000-8000-00000000000c'' \<notin> s_id ` set (sessions ex_sdb)"
    "distinct (map s_id (sessions ex_sdb))" "ex_session2 \<in> set (sessions ex_sdb)"
    "s_expiresAt ex_session2 < 1774790000000" "1774700000000 \<le> s_expiresAt ex_session2"
    by (simp_all add: ex_session_defs)
  have m: "map (\<lambda>x. if s_id x = s_id ex_session2 then x\<lparr>s_lastAccessedAt := 1774700000001\<rparr>
                    else x) (sessions ex_sdb)
           = [ex_session2\<lparr>s_lastAccessedAt := 1774700000001\<rparr>]"
    by (simp add: ex_sdb_def)
  from u h
    getSession_amended [of ex_engine "''zz''" ex_sdb 1774700000000 1774700000001
      "''0a1b2c3d-0000-4000-8000-00000000000c''" ex_session2]
    getSession_amended [of ex_engine "''0a1b2c3d-0000-4000-8000-00000000000c''" ex_sdb
      1774700000000 1774700000001 "''0a1b2c3d-0000-4000-8000-00000000000c''" ex_session2]
    getSession_amended [of ex_engine ex_sid ex_sdb 1774790000000 1774790000001
      "''0a1b2c3d-0000-4000-8000-00000000000c''" ex_session2]
    getSession_amended [of ex_engine ex_sid ex_sdb 1774700000000 1774700000001
      "''0a1b2c3d-0000-4000-8000-00000000000c''" ex_session2]
  show ?thesis
    by (simp add: m)
qed

subsection \<open>Extending a session\<close>






section \<open>The callback handler\<close>

lemmas cb_defs = callback_def callback_begin_def callback_finish_def callback_try_def
  fetchUserInfo_def findOrCreateUser_def
  generateTokens_def createSession_def insert_user_def insert_refresh_token_def
  insert_session_def jwt_sign_def addSeconds_def Let_def login_def
  ACCESS_TOKEN_EXPIRES_IN_def REFRESH_TOKEN_EXPIRES_IN_def SESSION_DURATION_def

lemma ex_states_eval: "ex_states prov = [''S1'' \<mapsto> ex_pending ''S1'' prov]"
  if "prov = ''google'' \<or> prov = ''discord''"
  using that by (auto simp add: ex_states_def login_def ex_env_def ex_pending_def Let_def)

subsection \<open>The two outcomes of the checks before the try block\<close>

lemma callback_begin_rejected:
  "\<not> (clients env prov \<and> (\<exists>p. sts st = Some p \<and> provider p = prov)) \<Longrightarrow>
   callback_begin env sts prov st =
     Inl (Json 400 (ErrorBody (if clients env prov then ''Invalid state''
                               else ''Invalid provider'')))"
  by (auto simp: callback_begin_def split: option.splits)

lemma callback_begin_accepted:
  "clients env prov \<Longrightarrow> sts st = Some p \<Longrightarrow> provider p = prov \<Longrightarrow>
   callback_begin env sts prov st = Inr p"
  by (simp add: callback_begin_def)

lemma callback_finish_eq:
  "callback_finish env g (sts, d) prov url p =
     (case fst (callback_try env g d prov url p) of
        Inl err \<Rightarrow> Json 500 (ErrorBody ''Authentication failed'')
      | Inr result \<Rightarrow> Json 200 (LoginBody result),
      sts(state p := None),
      snd (callback_try env g d prov url p))"
  by (cases "callback_try env g d prov url p") (simp add: callback_finish_def split: sum.splits)

lemma callback_rejected:
  "\<not> (clients env prov \<and> (\<exists>p. sts st = Some p \<and> provider p = prov)) \<Longrightarrow>
   callback env g (sts, d) prov st url =
     (Json 400 (ErrorBody (if clients env prov then ''Invalid state'' else ''Invalid provider'')),
      sts, d)"
  by (simp add: callback_def callback_begin_rejected [where sts=sts and st=st])

lemma callback_accepted:
  "clients env prov \<Longrightarrow> sts st = Some p \<Longrightarrow> provider p = prov \<Longrightarrow>
   callback env g (sts, d) prov st url =
     (case fst (callback_try env g d prov url p) of
        Inl err \<Rightarrow> Json 500 (ErrorBody ''Authentication failed'')
      | Inr result \<Rightarrow> Json 200 (LoginBody result),
      sts(state p := None),
      snd (callback_try env g d prov url p))"
  by (simp add: callback_def callback_begin_accepted [where sts=sts and st=st] callback_finish_eq)

lemma login_states_ok: "states_ok sts \<Longrightarrow> states_ok (snd (login env sts prov verifier st))"
  by (simp add: states_ok_def login_def Let_def)

lemma callback_finish_states_ok:
  "states_ok sts \<Longrightarrow> states_ok (fst (snd (callback_finish env g (sts, d) prov url p)))"
  by (simp add: callback_finish_eq states_ok_def)

text \<open>
  A state value that is not registered stays so through the second part of any callback
  and through any login that draws another state value.
\<close>

lemma absent_after_finish:
  "sts st = None \<Longrightarrow> fst (snd (callback_finish env g (sts, d) prov url p)) st = None"
  by (simp add: callback_finish_eq)

lemma absent_after_login:
  "sts st = None \<Longrightarrow> st' \<noteq> st \<Longrightarrow> snd (login env sts prov verifier st') st = None"
  by (simp add: login_def Let_def)

lemma reachable_states_ok: "reachable_states env sts \<Longrightarrow> states_ok sts"
proof (induction rule: reachable_states.induct)
  case initial
  show ?case by (simp add: states_ok_def)
next
  case (after_login sts prov verifier st)
  then show ?case by (simp add: login_states_ok)
next
  case (after_finish sts g d prov currentUrl storedState)
  then show ?case by (simp add: callback_finish_states_ok)
qed

text \<open>
  C2, as claimed: the entry is removed on every exit path, so that any second callback
  with the same state value fails with \<open>Invalid state\<close>, and a state value is never
  consumed twice.  The state \<open>S1\<close> is registered by a login for \<open>discord\<close>.  A callback on
  the path of \<open>google\<close> presenting \<open>S1\<close> leaves through the early return \<open>Invalid state\<close>,
  which comes before the \<open>try\<close> and its \<open>finally\<close>: the entry stays, and a second callback
  presenting \<open>S1\<close>, on the path of \<open>discord\<close>, completes the login.  And when two callbacks
  on the path of \<open>discord\<close> present \<open>S1\<close> and the first part of the second runs before the
  second part of the first, both find the entry, and both are answered 200.
\<close>

theorem callback_mismatch_keeps_state:
  "callback ex_env ex_gen (ex_states ''discord'', ex_db) ''google'' ''S1'' ''/cb?code=good''
     = (Json 400 (ErrorBody ''Invalid state''), ex_states ''discord'', ex_db)
   \<and> ex_states ''discord'' ''S1'' = Some (ex_pending ''S1'' ''discord'')
   \<and> fst (callback ex_env ex_gen (ex_states ''discord'', ex_db) ''discord'' ''S1''
            ''/cb?code=good'')
       = Json 200 (LoginBody (ex_login ''discord''))
   \<and> callback_begin ex_env (ex_states ''discord'') ''discord'' ''S1''
       = Inr (ex_pending ''S1'' ''discord'')
   \<and> callback_finish ex_env ex_gen (ex_states ''discord'', ex_db) ''discord'' ''/cb?code=good''
        (ex_pending ''S1'' ''discord'')
       = (Json 200 (LoginBody (ex_login ''discord'')), (ex_states ''discord'')(''S1'' := None),
          ex_db_login ''discord'' ''d@x.com'' ''D'')
   \<and> fst (callback_finish ex_env ex_gen2
            ((ex_states ''discord'')(''S1'' := None), ex_db_login ''discord'' ''d@x.com'' ''D'')
            ''discord'' ''/cb?code=good'' (ex_pending ''S1'' ''discord''))
       = Json 200 (LoginBody ex_login2)"
  by (simp add: ex_states_eval cb_defs ex_router_defs ex_defs ex_gen2_def ex_login2_def)

text \<open>
  C2, amended: for every callback that passes the checks (the path's provider is
  configured, an entry is registered under the presented state value and its recorded
  provider is the path's provider), the entry registered under that state value is
  removed exactly once, by the \<open>finally\<close> block, when the handler finishes, whether the
  \<open>try\<close> block succeeds (200) or fails at any step (500 \<open>Authentication failed\<close>), and
  nothing else is removed from the registry as it is by then.  Any callback that presents
  the same state value to the registry the handler leaves is rejected before the
  exchange, with \<open>Invalid state\<close> when its provider is configured and \<open>Invalid provider\<close>
  otherwise.  A callback that fails a check is answered 400 and leaves registry and store
  unchanged.  The registry at the time of the checks is one the handlers produce: each
  entry is stored under its own state value.
\<close>

theorem callback_consumes_state:
  "(states_ok sts \<and> clients env prov \<and> sts st = Some p \<and> provider p = prov \<longrightarrow>
      callback_begin env sts prov st = Inr p
    \<and> fst (snd (callback_finish env g (sts1, d1) prov url p)) = sts1(st := None)
    \<and> (fst (callback_finish env g (sts1, d1) prov url p)
          = Json 500 (ErrorBody ''Authentication failed'')
       \<or> (\<exists>r. fst (callback_finish env g (sts1, d1) prov url p) = Json 200 (LoginBody r)))
    \<and> callback_begin env (fst (snd (callback_finish env g (sts1, d1) prov url p))) prov2 st
        = Inl (Json 400 (ErrorBody (if clients env prov2 then ''Invalid state''
                                    else ''Invalid provider'')))
    \<and> fst (snd (callback env g (sts, d) prov st url)) = sts(st := None)
    \<and> callback env g2 (fst (snd (callback env g (sts, d) prov st url)), d2) prov2 st url2
        = (Json 400 (ErrorBody (if clients env prov2 then ''Invalid state''
                               else ''Invalid provider'')),
           sts(st := None), d2))
   \<and> (\<not> (clients env prov \<and> (\<exists>q. sts st = Some q \<and> provider q = prov)) \<longrightarrow>
        callback_begin env sts prov st
          = Inl (Json 400 (ErrorBody (if clients env prov then ''Invalid state''
                                      else ''Invalid provider'')))
      \<and> callback env g (sts, d) prov st url
          = (Json 400 (ErrorBody (if clients env prov then ''Invalid state''
                                 else ''Invalid provider'')), sts, d))"
proof (intro conjI impI)
  assume n: "\<not> (clients env prov \<and> (\<exists>q. sts st = Some q \<and> provider q = prov))"
  then show "callback env g (sts, d) prov st url
          = (Json 400 (ErrorBody (if clients env prov then ''Invalid state''
                                 else ''Invalid provider'')), sts, d)"
    by (rule callback_rejected [where sts=sts and st=st])
  from n show "callback_begin env sts prov st
          = Inl (Json 400 (ErrorBody (if clients env prov then ''Invalid state''
                                      else ''Invalid provider'')))"
    by (rule callback_begin_rejected [where sts=sts and st=st])
next
  assume h: "states_ok sts \<and> clients env prov \<and> sts st = Some p \<and> provider p = prov"
  then have p: "clients env prov" "sts st = Some p" "provider p = prov" by simp_all
  from h have key: "state p = st" by (simp add: states_ok_def)
  show "callback_begin env sts prov st = Inr p"
    by (rule callback_begin_accepted [where sts=sts and st=st, OF p])
  show later: "fst (snd (callback_finish env g (sts1, d1) prov url p)) = sts1(st := None)"
    by (simp add: callback_finish_eq key)
  show "fst (callback_finish env g (sts1, d1) prov url p)
          = Json 500 (ErrorBody ''Authentication failed'')
       \<or> (\<exists>r. fst (callback_finish env g (sts1, d1) prov url p) = Json 200 (LoginBody r))"
    by (simp add: callback_finish_eq split: sum.splits)
  have "\<not> (clients env prov2 \<and> (\<exists>q. (sts1(st := None)) st = Some q \<and> provider q = prov2))"
    by simp
  from callback_begin_rejected [where sts="sts1(st := None)" and st=st, OF this]
  show "callback_begin env (fst (snd (callback_finish env g (sts1, d1) prov url p))) prov2 st
        = Inl (Json 400 (ErrorBody (if clients env prov2 then ''Invalid state''
                                    else ''Invalid provider'')))"
    unfolding later .
  show removed: "fst (snd (callback env g (sts, d) prov st url)) = sts(st := None)"
    by (simp add: callback_accepted [where sts=sts and st=st, OF p] key)
  have "\<not> (clients env prov2 \<and> (\<exists>q. (sts(st := None)) st = Some q \<and> provider q = prov2))"
    by simp
  from callback_rejected [where sts="sts(st := None)" and st=st, OF this]
  show "callback env g2 (fst (snd (callback env g (sts, d) prov st url)), d2) prov2 st url2
        = (Json 400 (ErrorBody (if clients env prov2 then ''Invalid state''
                               else ''Invalid provider'')),
           sts(st := None), d2)"
    unfolding removed .
qed

theorem callback_consumes_state_witness:
  "reachable_states ex_env (ex_states ''discord'')
   \<and> states_ok (ex_states ''discord'') \<and> clients ex_env ''discord''
   \<and> ex_states ''discord'' ''S1'' = Some (ex_pending ''S1'' ''discord'')
   \<and> fst (callback ex_env ex_gen (ex_states ''discord'', ex_db) ''discord'' ''S1''
            ''/cb?code=good'')
       = Json 200 (LoginBody (ex_login ''discord''))
   \<and> fst (callback ex_env ex_gen (ex_states ''discord'', ex_db) ''discord'' ''S1''
            ''/cb?code=bad'')
       = Json 500 (ErrorBody ''Authentication failed'')
   \<and> fst (snd (callback ex_env ex_gen (ex_states ''discord'', ex_db) ''discord'' ''S1''
                ''/cb?code=good'')) ''S1'' = None
   \<and> fst (snd (callback ex_env ex_gen (ex_states ''discord'', ex_db) ''discord'' ''S1''
                ''/cb?code=bad'')) ''S1'' = None
   \<and> fst (callback ex_env ex_gen
            (fst (snd (callback ex_env ex_gen (ex_states ''discord'', ex_db) ''discord'' ''S1''
                        ''/cb?code=good'')), ex_db) ''discord'' ''S1'' ''/cb?code=good'')
       = Json 400 (ErrorBody ''Invalid state'')
   \<and> callback ex_env ex_gen (ex_states ''discord'', ex_db) ''github'' ''S1'' ''/cb?code=good''
       = (Json 400 (ErrorBody ''Invalid provider''), ex_states ''discord'', ex_db)"
proof -
  have r: "reachable_states ex_env (ex_states ''discord'')"
    unfolding ex_states_def by (rule reachable_states.after_login) (rule reachable_states.initial)
  have ok: "states_ok (ex_states ''discord'')"
    by (rule reachable_states_ok [OF r])
  have e: "ex_states ''discord'' ''S1'' = Some (ex_pending ''S1'' ''discord'')"
    by (simp add: ex_states_eval)
  have c: "clients ex_env ''discord''" "\<not> clients ex_env ''github''"
    by (simp_all add: ex_env_def)
  have good: "fst (callback ex_env ex_gen (ex_states ''discord'', ex_db) ''discord'' ''S1''
                ''/cb?code=good'') = Json 200 (LoginBody (ex_login ''discord''))"
    by (simp add: ex_states_eval cb_defs ex_router_defs ex_defs)
  have bad: "fst (callback ex_env ex_gen (ex_states ''discord'', ex_db) ''discord'' ''S1''
                ''/cb?code=bad'') = Json 500 (ErrorBody ''Authentication failed'')"
    by (simp add: ex_states_eval cb_defs ex_router_defs ex_defs)
  from r ok e c good bad
    callback_consumes_state [of "ex_states ''discord''" ex_env "''discord''" "''S1''"
      "ex_pending ''S1'' ''discord''" ex_gen "ex_states ''discord''" ex_db "''/cb?code=good''"
      "''discord''" ex_db ex_gen ex_db "''/cb?code=good''"]
    callback_consumes_state [of "ex_states ''discord''" ex_env "''discord''" "''S1''"
      "ex_pending ''S1'' ''discord''" ex_gen "ex_states ''discord''" ex_db "''/cb?code=bad''"
      "''discord''" ex_db ex_gen ex_db "''/cb?code=good''"]
    callback_consumes_state [of "ex_states ''discord''" ex_env "''github''" "''S1''"
      "ex_pending ''S1'' ''discord''" ex_gen "ex_states ''discord''" ex_db "''/cb?code=good''"
      "''discord''" ex_db ex_gen ex_db "''/cb?code=good''"]
  show ?thesis
    by (simp add: ex_pending_def callback_def callback_begin_def)
qed

subsection \<open>Failures of the provider\<close>

lemma fetchUserInfo_fails_iff:
  "(\<exists>e. fetchUserInfo env prov at = Inl e) \<longleftrightarrow>
   (if prov = ''discord''
    then (case discordUsersMe env at of
            DiscordFetchThrows \<Rightarrow> True
          | DiscordResponse ok status parsed \<Rightarrow> \<not> ok \<or> parsed = None)
    else (case fetchProtectedResource env prov at of
            ResourceThrows \<Rightarrow> True
          | ResourceResponse b \<Rightarrow> b = None \<or> b = Some None))"
  by (simp add: fetchUserInfo_def split: discord_reply.splits userinfo_reply.splits option.splits)

lemma callback_try_grant_fails:
  "authorizationCodeGrant env prov url (codeVerifier p) (state p) = None \<Longrightarrow>
   callback_try env g d prov url p = (Inl ProviderError, d)"
  by (simp add: callback_try_def)

lemma callback_try_userinfo_fails:
  "authorizationCodeGrant env prov url (codeVerifier p) (state p) = Some at \<Longrightarrow>
   fetchUserInfo env prov at = Inl e \<Longrightarrow>
   callback_try env g d prov url p = (Inl e, d)"
  by (simp add: callback_try_def)

text \<open>
  C7.  When a callback passes the checks and the code exchange throws, or the exchange
  returns and the user-info step throws, the answer is 500 \<open>Authentication failed\<close>, the
  entry is removed from the registry and the store is the one before the callback: no
  user row, no refresh token and no session is created.
\<close>

theorem callback_provider_failure:
  "clients env prov \<and> sts st = Some p \<and> provider p = prov
   \<and> (authorizationCodeGrant env prov url (codeVerifier p) (state p) = None
      \<or> (\<exists>at e. authorizationCodeGrant env prov url (codeVerifier p) (state p) = Some at
                \<and> fetchUserInfo env prov at = Inl e))
   \<longrightarrow> callback env g (sts, d) prov st url
         = (Json 500 (ErrorBody ''Authentication failed''), sts(state p := None), d)
       \<and> users (snd (snd (callback env g (sts, d) prov st url))) = users d
       \<and> sessions (snd (snd (callback env g (sts, d) prov st url))) = sessions d
       \<and> refreshTokens (snd (snd (callback env g (sts, d) prov st url))) = refreshTokens d"
proof (intro impI, elim conjE)
  assume p: "clients env prov" "sts st = Some p" "provider p = prov"
  assume "authorizationCodeGrant env prov url (codeVerifier p) (state p) = None
      \<or> (\<exists>at e. authorizationCodeGrant env prov url (codeVerifier p) (state p) = Some at
                \<and> fetchUserInfo env prov at = Inl e)"
  then obtain e where "callback_try env g d prov url p = (Inl e, d)"
    using callback_try_grant_fails callback_try_userinfo_fails by blast
  then have "callback env g (sts, d) prov st url
         = (Json 500 (ErrorBody ''Authentication failed''), sts(state p := None), d)"
    by (simp add: callback_accepted [where sts=sts and st=st, OF p])
  then show "callback env g (sts, d) prov st url
         = (Json 500 (ErrorBody ''Authentication failed''), sts(state p := None), d)
       \<and> users (snd (snd (callback env g (sts, d) prov st url))) = users d
       \<and> sessions (snd (snd (callback env g (sts, d) prov st url))) = sessions d
       \<and> refreshTokens (snd (snd (callback env g (sts, d) prov st url))) = refreshTokens d"
    by simp
qed

theorem callback_provider_failure_witness:
  "clients ex_env ''google''
   \<and> ex_states ''google'' ''S1'' = Some (ex_pending ''S1'' ''google'')
   \<and> provider (ex_pending ''S1'' ''google'') = ''google''
   \<and> authorizationCodeGrant ex_env ''google'' ''/cb?code=bad'' ''v'' ''S1'' = None
   \<and> snd (snd (callback ex_env ex_gen (ex_states ''google'', ex_db) ''google'' ''S1''
                 ''/cb?code=bad'')) = ex_db
   \<and> fst (callback ex_env ex_gen (ex_states ''google'', ex_db) ''google'' ''S1''
            ''/cb?code=bad'') = Json 500 (ErrorBody ''Authentication failed'')
   \<and> authorizationCodeGrant ex_env_down ''google'' ''/cb?code=good'' ''v'' ''S1'' = Some ''at''
   \<and> fetchUserInfo ex_env_down ''google'' ''at'' = Inl ProviderError
   \<and> snd (snd (callback ex_env_down ex_gen (ex_states ''google'', ex_db) ''google'' ''S1''
                 ''/cb?code=good'')) = ex_db
   \<and> fst (callback ex_env_down ex_gen (ex_states ''google'', ex_db) ''google'' ''S1''
            ''/cb?code=good'') = Json 500 (ErrorBody ''Authentication failed'')"
proof -
  have e: "ex_states ''google'' ''S1'' = Some (ex_pending ''S1'' ''google'')"
    by (simp add: ex_states_eval)
  have c: "clients ex_env ''google''" "clients ex_env_down ''google''"
    "provider (ex_pending ''S1'' ''google'') = ''google''"
    "codeVerifier (ex_pending ''S1'' ''google'') = ''v''"
    "state (ex_pending ''S1'' ''google'') = ''S1''"
    by (simp_all add: ex_env_def ex_env_down_def ex_pending_def)
  have g: "authorizationCodeGrant ex_env ''google'' ''/cb?code=bad'' ''v'' ''S1'' = None"
    "authorizationCodeGrant ex_env_down ''google'' ''/cb?code=good'' ''v'' ''S1'' = Some ''at''"
    by (simp_all add: ex_env_def ex_env_down_def)
  have u: "fetchUserInfo ex_env_down ''google'' ''at'' = Inl ProviderError"
    by (simp add: fetchUserInfo_def ex_env_def ex_env_down_def)
  from e c g u
    callback_provider_failure [of ex_env "''google''" "ex_states ''google''" "''S1''"
      "ex_pending ''S1'' ''google''" "''/cb?code=bad''" ex_gen ex_db]
    callback_provider_failure [of ex_env_down "''google''" "ex_states ''google''" "''S1''"
      "ex_pending ''S1'' ''google''" "''/cb?code=good''" ex_gen ex_db]
  show ?thesis by simp
qed

subsection \<open>Resolving the user\<close>

text \<open>
  Two find-or-create steps with the same profile, with nothing inserted into \<open>users\<close>
  between them, resolve to the same user id, and the second inserts nothing.
\<close>

lemma findOrCreateUser_stable:
  assumes "findOrCreateUser d prov info i t = Inr (uid, d1)" and "users d2 = users d1"
  shows "findOrCreateUser d2 prov info i2 t2 = Inr (uid, d2)"
proof (cases "filter (\<lambda>u. u_providerId u = ui_sub info) (users d)")
  case Nil
  with assms(1) have "users d1 = users d @ [\<lparr>u_id = uid, u_provider = prov,
      u_providerId = ui_sub info, u_email = ui_email info, u_name = ui_name info,
      u_createdAt = t\<rparr>]"
    by (auto simp: findOrCreateUser_def insert_user_def Let_def split: if_splits)
  with Nil assms(2) show ?thesis
    by (simp add: findOrCreateUser_def)
next
  case (Cons u us)
  with assms(1) have "d1 = d" "uid = u_id u"
    by (simp_all add: findOrCreateUser_def)
  with Cons assms(2) show ?thesis
    by (simp add: findOrCreateUser_def)
qed

text \<open>
  C3.  The claim: the user is resolved by the pair (provider, sub); when no user has
  the pair, one is created.  The store \<open>ex_db\<close> holds one user, of provider \<open>google\<close>
  with provider id \<open>123\<close>.  A login through \<open>discord\<close> whose profile has the id \<open>123\<close>
  finds no user with the pair (\<open>discord\<close>, \<open>123\<close>), yet no user is created: the select
  compares \<open>providerId\<close> only, and the login is resolved to the \<open>google\<close> user, whose id
  goes into the access token and the session.
\<close>

theorem callback_cross_provider_user:
  "users ex_db = [ex_user] \<and> u_provider ex_user = ''google'' \<and> u_providerId ex_user = ''123''
   \<and> fetchUserInfo ex_env ''discord'' ''at''
        = Inr \<lparr>ui_email = ''d@x.com'', ui_name = ''D'', ui_sub = ''123''\<rparr>
   \<and> callback ex_env ex_gen (ex_states ''discord'', ex_db) ''discord'' ''S1'' ''/cb?code=good''
        = (Json 200 (LoginBody (ex_login ''discord'')), (ex_states ''discord'')(''S1'' := None),
           ex_db_login ''discord'' ''d@x.com'' ''D'')
   \<and> users (ex_db_login ''discord'' ''d@x.com'' ''D'') = [ex_user]
   \<and> jwt_userId (accessToken (ex_login ''discord'')) = u_id ex_user"
  by (simp add: ex_states_eval cb_defs ex_router_defs ex_defs)


section \<open>Uniqueness in the storage layout\<close>

text \<open>
  C4, as claimed: \<open>users\<close> is unique on (\<open>provider\<close>, \<open>provider_id\<close>) and
  \<open>refresh_tokens\<close> on \<open>token\<close>.  Neither key is among the unique keys of the migration;
  a second \<open>users\<close> row with the same provider and provider id, and a second
  \<open>refresh_tokens\<close> row with the same token, are inserted without an error.
\<close>

theorem schema_accepts_duplicates:
  "[''provider'', ''provider_id''] \<notin> set (unique_keys users_table)
   \<and> [''token''] \<notin> set (unique_keys refresh_tokens_table)
   \<and> agree_on [''provider'', ''provider_id''] (ex_row ''u1'') (ex_row ''u2'')
   \<and> sql_insert users_table [ex_row ''u1''] (ex_row ''u2'') = Inr [ex_row ''u1'', ex_row ''u2'']
   \<and> agree_on [''token''] (ex_token_row ''r1'') (ex_token_row ''r2'')
   \<and> sql_insert refresh_tokens_table [ex_token_row ''r1''] (ex_token_row ''r2'')
        = Inr [ex_token_row ''r1'', ex_token_row ''r2'']
   \<and> insert_user ex_db (ex_user\<lparr>u_id := ''u2''\<rparr>)
        = Inr (ex_db\<lparr>users := [ex_user, ex_user\<lparr>u_id := ''u2''\<rparr>]\<rparr>)"
  by (simp add: unique_keys_def users_table_def refresh_tokens_table_def mk_column_def
      sql_insert_def agree_on_def ex_row_def ex_token_row_def insert_user_def ex_defs)

lemma unique_keys_tables:
  "unique_keys users_table = [[''id'']]"
  "unique_keys refresh_tokens_table = [[''id'']]"
  "unique_keys sessions_table = [[''id'']]"
  by (simp_all add: unique_keys_def users_table_def refresh_tokens_table_def sessions_table_def
      mk_column_def)

text \<open>
  C4, amended: the storage layout enforces uniqueness on the primary key \<open>id\<close> of each
  table and on nothing else.  An insert into \<open>users\<close> or \<open>refresh_tokens\<close> is refused
  exactly when a stored row has the same \<open>id\<close>, and the violation it signals is that of
  the primary key; rows that repeat a (\<open>provider\<close>, \<open>provider_id\<close>) pair or a \<open>token\<close>
  value are accepted.
\<close>

theorem schema_unique_keys:
  "unique_keys users_table = [[''id'']]
   \<and> unique_keys refresh_tokens_table = [[''id'']]
   \<and> (\<not> list_ex (agree_on [''id''] r) rows \<longrightarrow>
        sql_insert users_table rows r = Inr (rows @ [r])
      \<and> sql_insert refresh_tokens_table rows r = Inr (rows @ [r]))
   \<and> (list_ex (agree_on [''id''] r) rows \<longrightarrow>
        sql_insert users_table rows r = Inl [''id'']
      \<and> sql_insert refresh_tokens_table rows r = Inl [''id''])"
  by (simp add: unique_keys_tables sql_insert_def)

theorem schema_unique_keys_witness:
  "\<not> list_ex (agree_on [''id''] (ex_row ''u2'')) [ex_row ''u1'']
   \<and> sql_insert users_table [ex_row ''u1''] (ex_row ''u2'') = Inr [ex_row ''u1'', ex_row ''u2'']
   \<and> list_ex (agree_on [''id''] (ex_row ''u1'')) [ex_row ''u1'']
   \<and> sql_insert users_table [ex_row ''u1''] (ex_row ''u1'') = Inl [''id'']"
  using schema_unique_keys [of "ex_row ''u2''" "[ex_row ''u1'']"]
        schema_unique_keys [of "ex_row ''u1''" "[ex_row ''u1'']"]
  by (simp add: agree_on_def ex_row_def)


end
